theory Spec2Isabelle
  imports Complex_Main "HOL-Library.Sublist"
begin

section \<open>The CSV viewer of \<open>App.jsx\<close>: values and component state\<close>

text \<open>
  The component \<open>App\<close> keeps its state in React hooks and derives the table view
  (\<open>filteredData\<close>) and the chart series (\<open>chartData\<close>) from that state on every
  render. The state is a record, every handler is a function from the state to the new
  state, and the derived values are functions of the state's fields.

  A row produced by the CSV parser (\<open>header: true\<close>, no dynamic typing) is a plain
  object whose own properties are the header names and whose values are strings: a map
  from names to strings. The object inherits from \<open>Object.prototype\<close>, and a property
  read \<open>row[col]\<close> goes through the prototype chain: it gives the row's own cell when
  the row has one, else the property of that name of \<open>Object.prototype\<close> when there is
  one (\<open>constructor\<close>, \<open>toString\<close>, ...), else \<open>undefined\<close>.
\<close>

type_synonym row = "string \<rightharpoonup> string"

text \<open>
  The values a property read of a row gives: \<open>undefined\<close>, a cell, or a value inherited
  from \<open>Object.prototype\<close>. Of an inherited value (a built-in function, or the prototype
  object itself for \<open>__proto__\<close>) the code uses the string that its \<open>toString()\<close>
  returns; \<open>Inherited k text\<close> is the value of the property \<open>k\<close> with that string.
\<close>

datatype jsval = Undefined | Str string | Inherited string string

text \<open>
  \<open>Object.prototype\<close> is a parameter of the model: the list of its property names, each
  with the \<open>toString()\<close> text of its value, which differs from engine to engine.
\<close>

type_synonym prototype = "(string \<times> string) list"

definition getProp :: "prototype \<Rightarrow> row \<Rightarrow> string \<Rightarrow> jsval" where
  "getProp proto row k =
     (case row k of
        Some cell \<Rightarrow> Str cell
      | None \<Rightarrow> (case map_of proto k of Some text \<Rightarrow> Inherited k text | None \<Rightarrow> Undefined))"

text \<open>
  The properties of \<open>Object.prototype\<close> in a standard engine, with the texts as V8
  prints them; the instance for evaluating examples.
\<close>

definition standardPrototype :: prototype where
  "standardPrototype =
     [(''constructor'', ''function Object() { [native code] }''),
      (''__defineGetter__'', ''function __defineGetter__() { [native code] }''),
      (''__defineSetter__'', ''function __defineSetter__() { [native code] }''),
      (''hasOwnProperty'', ''function hasOwnProperty() { [native code] }''),
      (''__lookupGetter__'', ''function __lookupGetter__() { [native code] }''),
      (''__lookupSetter__'', ''function __lookupSetter__() { [native code] }''),
      (''isPrototypeOf'', ''function isPrototypeOf() { [native code] }''),
      (''propertyIsEnumerable'', ''function propertyIsEnumerable() { [native code] }''),
      (''toString'', ''function toString() { [native code] }''),
      (''valueOf'', ''function valueOf() { [native code] }''),
      (''__proto__'', ''[object Object]''),
      (''toLocaleString'', ''function toLocaleString() { [native code] }'')]"

datatype orientation = Vertical | Horizontal

record app_state =
  csvText :: string
  data :: "row list"
  columns :: "string list"
  xColumn :: string
  yColumn :: string
  orientation :: orientation
  error :: string
  darkMode :: bool
  filters :: "(string \<times> string) list"

text \<open>
  The field \<open>filters\<close> holds \<open>Object.entries(filters)\<close>: the (column, needle) pairs
  of the filter object in the order of \<open>Object.entries\<close>.
\<close>

text \<open>The initial values of the hooks (\<open>useState("")\<close>, \<open>useState([])\<close>, ...).\<close>

definition initialState :: app_state where
  "initialState =
     \<lparr> csvText = [], data = [], columns = [], xColumn = [], yColumn = [],
       orientation = Vertical, error = [], darkMode = False, filters = [] \<rparr>"

subsection \<open>String built-ins\<close>

text \<open>
  \<open>String.prototype.toLowerCase\<close> follows the Unicode case mappings; it is a parameter
  of the filtering, \<open>lower\<close>. The instance for evaluating examples is the mapping on
  the ASCII letters: a \<open>char\<close> is a byte and every byte outside \<open>A\<close>..\<open>Z\<close> is left as
  it is, which is what \<open>toLowerCase\<close> does on ASCII strings.
\<close>

definition lowerChar :: "char \<Rightarrow> char" where
  "lowerChar c =
     (let n = (of_char c :: nat) in if 65 \<le> n \<and> n \<le> 90 then char_of (n + 32) else c)"

definition asciiToLowerCase :: "string \<Rightarrow> string" where
  "asciiToLowerCase s = map lowerChar s"

text \<open>\<open>str_includes s t\<close> is \<open>s.includes(t)\<close>: \<open>t\<close> occurs in \<open>s\<close> as a contiguous run of characters.\<close>

fun str_includes :: "string \<Rightarrow> string \<Rightarrow> bool" where
  "str_includes [] t = (t = [])"
| "str_includes (c # s) t = (take (length t) (c # s) = t \<or> str_includes s t)"

section \<open>Filtering\<close>

text \<open>
  \<^verbatim>\<open>
  const filteredData = data.filter((row) =>
    Object.entries(filters).every(([col, value]) =>
      row[col]?.toString().toLowerCase().includes(value.toLowerCase())
    )
  );
  \<close>
  The optional chain \<open>row[col]?.toString()...\<close> evaluates to \<open>undefined\<close> when
  \<open>row[col]\<close> is \<open>undefined\<close>, and to the boolean of \<open>includes\<close> otherwise; the
  callback's value is \<open>bool option\<close>, with \<open>None\<close> for \<open>undefined\<close>. On a cell,
  which is a string, \<open>toString\<close> is the identity; on an inherited value it gives the
  value's text. \<open>every\<close> reads the callback's value by its truthiness, and
  \<open>undefined\<close> is falsy.
\<close>

definition entryTest ::
  "(string \<Rightarrow> string) \<Rightarrow> prototype \<Rightarrow> row \<Rightarrow> string \<times> string \<Rightarrow> bool option" where
  "entryTest lower proto row e =
     (case getProp proto row (fst e) of
        Undefined \<Rightarrow> None
      | Str cell \<Rightarrow> Some (str_includes (lower cell) (lower (snd e)))
      | Inherited k text \<Rightarrow> Some (str_includes (lower text) (lower (snd e))))"

definition truthy :: "bool option \<Rightarrow> bool" where
  "truthy v = (case v of None \<Rightarrow> False | Some b \<Rightarrow> b)"

definition rowPasses ::
  "(string \<Rightarrow> string) \<Rightarrow> prototype \<Rightarrow> (string \<times> string) list \<Rightarrow> row \<Rightarrow> bool" where
  "rowPasses lower proto fs row = list_all (\<lambda>e. truthy (entryTest lower proto row e)) fs"

definition filteredData ::
  "(string \<Rightarrow> string) \<Rightarrow> prototype \<Rightarrow> row list \<Rightarrow> (string \<times> string) list \<Rightarrow> row list" where
  "filteredData lower proto rows fs = filter (rowPasses lower proto fs) rows"

section \<open>Chart series\<close>

text \<open>
  JavaScript numbers, as far as the projection tells them apart: \<open>NaN\<close>, the two
  infinities and the finite numbers. The two zeros are one value \<open>Num 0\<close>; both are
  falsy and \<open>x || 0\<close> gives \<open>+0\<close> for either.
\<close>

datatype jsnum = NaN | PosInfinity | NegInfinity | Num rat

text \<open>
  \<open>Number(v)\<close> for \<open>v\<close> the value of a property read. \<open>Number(undefined)\<close> is \<open>NaN\<close>;
  on a string it is the language's \<open>StringToNumber\<close>, which rounds to a double and is
  taken as the parameter \<open>stn\<close>; an inherited value is an object whose \<open>valueOf()\<close>
  is the object itself, so it is converted through the text of its \<open>toString()\<close>.
\<close>

definition Number :: "(string \<Rightarrow> jsnum) \<Rightarrow> jsval \<Rightarrow> jsnum" where
  "Number stn v =
     (case v of Undefined \<Rightarrow> NaN | Str s \<Rightarrow> stn s | Inherited k text \<Rightarrow> stn text)"

text \<open>\<open>n || 0\<close>: the falsy numbers are \<open>NaN\<close> and zero.\<close>

definition or0 :: "jsnum \<Rightarrow> jsnum" where
  "or0 n = (if n = NaN \<or> n = Num 0 then Num 0 else n)"

text \<open>
  \<^verbatim>\<open>
  const chartData = {
    labels: filteredData.map((row) => row[xColumn]),
    datasets: [
      {
        label: yColumn,
        data: filteredData.map((row) => Number(row[yColumn]) || 0),
        backgroundColor: darkMode ? "#ffffff" : "#000000",
      },
    ],
  };
  \<close>
  There is one dataset; its three properties are fields of the record.
\<close>

record chart_data =
  labels :: "jsval list"
  dataset_label :: string
  dataset_data :: "jsnum list"
  backgroundColor :: string

definition chartData ::
  "(string \<Rightarrow> jsnum) \<Rightarrow> prototype \<Rightarrow> row list \<Rightarrow> string \<Rightarrow> string \<Rightarrow> bool \<Rightarrow> chart_data" where
  "chartData stn proto rows xCol yCol dark =
     \<lparr> labels = map (\<lambda>row. getProp proto row xCol) rows,
       dataset_label = yCol,
       dataset_data = map (\<lambda>row. or0 (Number stn (getProp proto row yCol))) rows,
       backgroundColor = (if dark then ''#ffffff'' else ''#000000'') \<rparr>"

text \<open>
  \<open>numericCoerce\<close> is not in the source. It is the coercion as the design of the
  projection words it, for comparison with \<open>Number(...) || 0\<close>: the cell parsed as a
  number, and 0 when the cell is missing or does not parse. What is parsed of an
  inherited value is its text.
\<close>

definition numericCoerce :: "(string \<Rightarrow> jsnum) \<Rightarrow> jsval \<Rightarrow> jsnum" where
  "numericCoerce stn v =
     (case v of
        Undefined \<Rightarrow> Num 0
      | Str s \<Rightarrow> (case stn s of NaN \<Rightarrow> Num 0 | n \<Rightarrow> n)
      | Inherited k text \<Rightarrow> (case stn text of NaN \<Rightarrow> Num 0 | n \<Rightarrow> n))"

text \<open>
  An instance of \<open>stn\<close> for evaluating the series on examples. It reads the empty
  string as 0 and a string of decimal digits as its value, and gives \<open>NaN\<close> on every
  other string. \<open>StringToNumber\<close> gives the same on the empty string, on digit
  strings whose value a double holds exactly, and on strings with a character that no
  numeric literal has (such as \<open>x\<close>); on signs, fractions, exponents and the like the
  two differ, and no example uses them.
\<close>

definition digitValue :: "char \<Rightarrow> nat option" where
  "digitValue c =
     (let n = (of_char c :: nat) in if 48 \<le> n \<and> n \<le> 57 then Some (n - 48) else None)"

fun digitsValue :: "nat \<Rightarrow> string \<Rightarrow> nat option" where
  "digitsValue acc [] = Some acc"
| "digitsValue acc (c # cs) =
     (case digitValue c of None \<Rightarrow> None | Some d \<Rightarrow> digitsValue (10 * acc + d) cs)"

definition decimalToNumber :: "string \<Rightarrow> jsnum" where
  "decimalToNumber s =
     (if s = [] then Num 0
      else case digitsValue 0 s of None \<Rightarrow> NaN | Some n \<Rightarrow> Num (of_nat n))"

section \<open>Parsing\<close>

text \<open>
  What a call of a collaborator does: it throws an exception, kept by its message, or
  it returns a value.
\<close>

datatype 'a outcome = Throws string | Returns 'a

text \<open>
  The parser's result object: \<open>result.data\<close>, \<open>result.errors\<close> (of each error the
  handlers read the \<open>message\<close>) and \<open>result.meta.fields\<close>.
\<close>

record parse_error =
  message :: string

record parse_result =
  result_data :: "row list"
  result_errors :: "parse_error list"
  meta_fields :: "string list"

text \<open>
  \<^verbatim>\<open>
  const parseCSV = () => {
    try {
      const result = Papa.parse(csvText, { header: true, skipEmptyLines: true });
      if (result.errors.length) {
        setError("CSV mal formateado: " + result.errors[0].message);
        return;
      }
      setError("");
      setData(result.data);
      setColumns(result.meta.fields);
    } catch (e) {
      setError("Error al parsear CSV: " + e.message);
    }
  };
  \<close>
  The parser is the parameter \<open>papa\<close>.
\<close>

definition parseCSV :: "(string \<Rightarrow> parse_result outcome) \<Rightarrow> app_state \<Rightarrow> app_state" where
  "parseCSV papa s =
     (case papa (csvText s) of
        Throws m \<Rightarrow> s\<lparr>error := ''Error al parsear CSV: '' @ m\<rparr>
      | Returns result \<Rightarrow>
          (case result_errors result of
             e # _ \<Rightarrow> s\<lparr>error := ''CSV mal formateado: '' @ message e\<rparr>
           | [] \<Rightarrow> s\<lparr>error := [], data := result_data result,
                      columns := meta_fields result\<rparr>))"

text \<open>
  \<^verbatim>\<open>
  const handleFileUpload = (e) => {
    const file = e.target.files[0];
    if (!file) return;
    Papa.parse(file, {
      header: true,
      skipEmptyLines: true,
      complete: (results) => {
        if (results.errors.length) {
          setError("CSV mal formateado: " + results.errors[0].message);
          return;
        }
        setError("");
        setData(results.data);
        setColumns(results.meta.fields);
      },
    });
  };
  \<close>
  \<open>complete\<close> is the callback; the parser of files, \<open>papaFile\<close>, gives the results it
  calls the callback with, or \<open>None\<close> when it never calls it.
\<close>

definition complete :: "parse_result \<Rightarrow> app_state \<Rightarrow> app_state" where
  "complete results s =
     (case result_errors results of
        e # _ \<Rightarrow> s\<lparr>error := ''CSV mal formateado: '' @ message e\<rparr>
      | [] \<Rightarrow> s\<lparr>error := [], data := result_data results,
                 columns := meta_fields results\<rparr>)"

definition handleFileUpload ::
  "('f \<Rightarrow> parse_result option) \<Rightarrow> 'f option \<Rightarrow> app_state \<Rightarrow> app_state" where
  "handleFileUpload papaFile file s =
     (case file of
        None \<Rightarrow> s
      | Some f \<Rightarrow> (case papaFile f of None \<Rightarrow> s | Some results \<Rightarrow> complete results s))"

section \<open>Export\<close>

text \<open>
  \<^verbatim>\<open>
  const exportChartPNG = () => {
    if (!chartRef.current) return;
    try {
      const chartInstance = chartRef.current;
      const url = chartInstance.toBase64Image();
      const image = new Image();
      image.src = url;
      image.onload = () => {
        const canvas = document.createElement("canvas");
        canvas.width = image.width;
        canvas.height = image.height;
        const ctx = canvas.getContext("2d");
        ctx.fillStyle = "#ffffff";
        ctx.fillRect(0, 0, canvas.width, canvas.height);
        ctx.drawImage(image, 0, 0);
        const finalUrl = canvas.toDataURL("image/png");
        const a = document.createElement("a");
        a.href = finalUrl;
        a.download = "chart.png";
        document.body.appendChild(a);
        a.click();
        document.body.removeChild(a);
      };
    } catch (e) {
      setError("Error exportando: " + e.message);
    }
  };
  \<close>
  The chart handle and the browser are collaborators. Of the handle the export uses the
  snapshot \<open>toBase64Image()\<close>. Of the browser it uses three steps: decoding the image
  of the snapshot's URL, after which \<open>onload\<close> is called or is not; the composite
  (creating the canvas, painting it white and drawing the image), which gives the canvas
  or throws; and the encoding \<open>toDataURL\<close>, which gives the final URL or throws.
\<close>

record chart_handle =
  toBase64Image :: "string outcome"

record 'c browser =
  image_loads :: "string \<Rightarrow> bool"
  composite :: "string \<Rightarrow> 'c outcome"
  toDataURL :: "'c \<Rightarrow> string outcome"

text \<open>
  What an export leaves behind: the component state, the downloads triggered (file name
  and URL of each \<open>a.click()\<close>), and the message of an exception that no handler
  caught.
\<close>

record export_result =
  state :: app_state
  downloads :: "(string \<times> string) list"
  uncaught :: "string option"

text \<open>
  The callback \<open>image.onload\<close> runs from the browser's event loop after
  \<open>exportChartPNG\<close> has returned, so the \<open>try\<close> of \<open>exportChartPNG\<close> is not
  around it: an exception of the composite or of the encoding ends the callback and is
  caught by nothing.
\<close>

definition onload :: "'c browser \<Rightarrow> string \<Rightarrow> app_state \<Rightarrow> export_result" where
  "onload b url s =
     (case composite b url of
        Throws m \<Rightarrow> \<lparr> state = s, downloads = [], uncaught = Some m \<rparr>
      | Returns canvas \<Rightarrow>
          (case toDataURL b canvas of
             Throws m \<Rightarrow> \<lparr> state = s, downloads = [], uncaught = Some m \<rparr>
           | Returns finalUrl \<Rightarrow>
               \<lparr> state = s, downloads = [(''chart.png'', finalUrl)], uncaught = None \<rparr>))"

definition exportChartPNG ::
  "'c browser \<Rightarrow> chart_handle option \<Rightarrow> app_state \<Rightarrow> export_result" where
  "exportChartPNG b chartRef s =
     (case chartRef of
        None \<Rightarrow> \<lparr> state = s, downloads = [], uncaught = None \<rparr>
      | Some chartInstance \<Rightarrow>
          (case toBase64Image chartInstance of
             Throws m \<Rightarrow>
               \<lparr> state = s\<lparr>error := ''Error exportando: '' @ m\<rparr>, downloads = [],
                 uncaught = None \<rparr>
           | Returns url \<Rightarrow>
               (if image_loads b url then onload b url s
                else \<lparr> state = s, downloads = [], uncaught = None \<rparr>)))"

section \<open>Properties of the string built-ins\<close>

lemma str_includes_empty_needle: "str_includes s []"
  by (cases s) simp_all

lemma str_includes_iff: "str_includes s t \<longleftrightarrow> (\<exists>p q. s = p @ t @ q)"
proof (induction s)
  case Nil
  then show ?case by auto
next
  case (Cons c s)
  show ?case
  proof
    assume "str_includes (c # s) t"
    then consider "take (length t) (c # s) = t" | "str_includes s t" by auto
    then show "\<exists>p q. c # s = p @ t @ q"
    proof cases
      case 1
      then have "c # s = [] @ t @ drop (length t) (c # s)"
        by (metis append_Nil append_take_drop_id)
      then show ?thesis by blast
    next
      case 2
      with Cons.IH obtain p q where "s = p @ t @ q" by blast
      then have "c # s = (c # p) @ t @ q" by simp
      then show ?thesis by blast
    qed
  next
    assume "\<exists>p q. c # s = p @ t @ q"
    then obtain p q where pq: "c # s = p @ t @ q" by blast
    show "str_includes (c # s) t"
    proof (cases p)
      case Nil
      with pq have "take (length t) (c # s) = t" by simp
      then show ?thesis by simp
    next
      case (Cons c' p')
      with pq have "s = p' @ t @ q" by simp
      with Cons.IH have "str_includes s t" by blast
      then show ?thesis by simp
    qed
  qed
qed

lemma asciiToLowerCase_example:
  "asciiToLowerCase ''Hello World 1Z@['' = ''hello world 1z@[''"
  by code_simp

section \<open>Properties of the property read\<close>

lemma getProp_own: "row k = Some cell \<Longrightarrow> getProp proto row k = Str cell"
  by (simp add: getProp_def)

lemma getProp_inherited:
  "row k = None \<Longrightarrow> map_of proto k = Some text \<Longrightarrow> getProp proto row k = Inherited k text"
  by (simp add: getProp_def)

lemma getProp_Undefined_iff:
  "getProp proto row k = Undefined \<longleftrightarrow> row k = None \<and> map_of proto k = None"
  by (simp add: getProp_def split: option.splits)

section \<open>Properties of filtering\<close>

text \<open>
  Substring match without regard to case: the needle \<open>1\<close> on column \<open>a\<close> keeps the
  cells \<open>1\<close> and \<open>21\<close> and drops \<open>3\<close>; the needle \<open>aB\<close> matches the cell \<open>xAby\<close>.
\<close>

lemma filteredData_substring_example:
  "map (\<lambda>row. row ''a'')
     (filteredData asciiToLowerCase standardPrototype
        [[''a'' \<mapsto> ''1'', ''b'' \<mapsto> ''x''], [''a'' \<mapsto> ''21'', ''b'' \<mapsto> ''y''],
         [''a'' \<mapsto> ''3'', ''b'' \<mapsto> ''z'']] [(''a'', ''1'')])
     = [Some ''1'', Some ''21'']"
  by code_simp

lemma filteredData_case_example:
  "map (\<lambda>row. row ''a'')
     (filteredData asciiToLowerCase standardPrototype
        [[''a'' \<mapsto> ''xAby'', ''b'' \<mapsto> ''1''], [''a'' \<mapsto> ''21'', ''b'' \<mapsto> ''2'']] [(''a'', ''aB'')])
     = [Some ''xAby'']"
  by code_simp

text \<open>
  A filter entry whose column the row does not own, but whose name is a property of
  \<open>Object.prototype\<close>, is tested against the text of the inherited value: the row
  \<open>{a: "1", b: "2"}\<close> passes the entry \<open>constructor\<close> with the needle \<open>obj\<close>, and with
  the empty needle.
\<close>

lemma entryTest_inherited:
  "row col = None \<Longrightarrow> map_of proto col = Some text \<Longrightarrow>
     entryTest lower proto row (col, needle)
       = Some (str_includes (lower text) (lower needle))"
  by (simp add: entryTest_def getProp_def)

lemma inherited_property_example:
  "rowPasses asciiToLowerCase standardPrototype [(''constructor'', ''obj'')]
     [''a'' \<mapsto> ''1'', ''b'' \<mapsto> ''2''] \<and>
   rowPasses asciiToLowerCase standardPrototype [(''constructor'', [])]
     [''a'' \<mapsto> ''1'', ''b'' \<mapsto> ''2'']"
  by code_simp

text \<open>
  C1, as the code has it. When \<open>row[col]\<close> is \<open>undefined\<close> for the column of a filter
  entry, that is, the row has no cell of its own at the column and the column's name is
  not a property inherited from \<open>Object.prototype\<close>, the optional chain gives
  \<open>undefined\<close> (nothing is thrown: the chain has no other outcome there), \<open>every\<close>
  reads it as false, and the entry rejects the row whatever the needle is, the empty
  needle included. So such a row is not among the filtered rows. This holds for every
  lower-casing function and every prototype.
\<close>

theorem missing_cell_rejects:
  "row col = None \<Longrightarrow> map_of proto col = None \<Longrightarrow>
     getProp proto row col = Undefined \<and>
     entryTest lower proto row (col, needle) = None \<and>
     ((col, needle) \<in> set fs \<longrightarrow>
        \<not> rowPasses lower proto fs row \<and> row \<notin> set (filteredData lower proto rows fs))"
proof -
  assume m: "row col = None" and i: "map_of proto col = None"
  have u: "getProp proto row col = Undefined"
    using m i by (simp add: getProp_def)
  have t: "entryTest lower proto row (col, needle) = None"
    using u by (simp add: entryTest_def)
  have r: "\<not> rowPasses lower proto fs row" if "(col, needle) \<in> set fs"
  proof
    assume "rowPasses lower proto fs row"
    with that have "truthy (entryTest lower proto row (col, needle))"
      by (auto simp: rowPasses_def list_all_iff)
    with t show False by (simp add: truthy_def)
  qed
  from u t r show ?thesis by (simp add: filteredData_def)
qed

theorem missing_cell_rejects_witness:
  "[''a'' \<mapsto> ''1'', ''b'' \<mapsto> ''2''] ''c'' = None \<and>
   map_of standardPrototype ''c'' = None \<and>
   entryTest asciiToLowerCase standardPrototype [''a'' \<mapsto> ''1'', ''b'' \<mapsto> ''2''] (''c'', ''z'')
     = None \<and>
   (''c'', ''z'') \<in> set [(''a'', ''1''), (''c'', ''z'')] \<and>
   \<not> rowPasses asciiToLowerCase standardPrototype [(''a'', ''1''), (''c'', ''z'')]
       [''a'' \<mapsto> ''1'', ''b'' \<mapsto> ''2''] \<and>
   [''a'' \<mapsto> ''1'', ''b'' \<mapsto> ''2'']
     \<notin> set (filteredData asciiToLowerCase standardPrototype
         [[''a'' \<mapsto> ''1'', ''b'' \<mapsto> ''2'']] [(''a'', ''1''), (''c'', ''z'')])"
proof -
  have m: "[''a'' \<mapsto> ''1'', ''b'' \<mapsto> ''2''] ''c'' = None" by simp
  have p: "map_of standardPrototype ''c'' = None"
    by (simp add: standardPrototype_def)
  have i: "(''c'', ''z'') \<in> set [(''a'', ''1''), (''c'', ''z'')]" by simp
  from missing_cell_rejects [of "[''a'' \<mapsto> ''1'', ''b'' \<mapsto> ''2'']" "''c''" standardPrototype
      asciiToLowerCase "''z''" "[(''a'', ''1''), (''c'', ''z'')]"
      "[[''a'' \<mapsto> ''1'', ''b'' \<mapsto> ''2'']]"] m p i
  show ?thesis by blast
qed

text \<open>
  C1, as it is worded, fails: it lets a row with a missing cell pass when the needle is
  empty. The row \<open>{a: "1", b: "2"}\<close> has no cell at \<open>c\<close>, the filter object is
  \<open>{c: ""}\<close>, and the row is rejected.
\<close>

theorem missing_cell_empty_needle_counterexample:
  "[''a'' \<mapsto> ''1'', ''b'' \<mapsto> ''2''] ''c'' = None \<and>
   \<not> rowPasses asciiToLowerCase standardPrototype [(''c'', [])] [''a'' \<mapsto> ''1'', ''b'' \<mapsto> ''2''] \<and>
   filteredData asciiToLowerCase standardPrototype [[''a'' \<mapsto> ''1'', ''b'' \<mapsto> ''2'']] [(''c'', [])]
     = []"
  by (simp add: filteredData_def rowPasses_def entryTest_def truthy_def getProp_def
      standardPrototype_def)

text \<open>
  C8. Filtering is idempotent: filtering the filtered rows again under the same filter
  entries gives the same sequence of rows as filtering once.
\<close>

theorem filteredData_idempotent:
  "filteredData lower proto (filteredData lower proto rows fs) fs
     = filteredData lower proto rows fs"
  by (simp add: filteredData_def)

text \<open>
  C9. With no filter entries every row is returned, in the original order; and under
  any filter entries the filtered rows are a subsequence of the rows: rows are dropped,
  never reordered.
\<close>

theorem filteredData_order:
  "filteredData lower proto rows [] = rows \<and>
   subseq (filteredData lower proto rows fs) rows"
  by (simp add: filteredData_def rowPasses_def)

section \<open>Properties of the chart series\<close>

text \<open>\<open>Number(v) || 0\<close> is the coercion of the design: the two agree on every value.\<close>

lemma or0_Number: "or0 (Number stn v) = numericCoerce stn v"
  by (auto simp: or0_def Number_def numericCoerce_def split: jsval.splits jsnum.splits)

lemma decimalToNumber_examples:
  "decimalToNumber ''10'' = Num 10 \<and> decimalToNumber ''x'' = NaN \<and>
   decimalToNumber ''20'' = Num 20"
  by (simp add: decimalToNumber_def digitValue_def)

text \<open>No text of the standard prototype reads as a number.\<close>

lemma standardPrototype_not_numeric:
  "list_all (\<lambda>p. decimalToNumber (snd p) = NaN) standardPrototype"
  by (simp add: standardPrototype_def decimalToNumber_def digitValue_def)

lemma map_absent: "list_all (\<lambda>x. f x = c) xs \<Longrightarrow> map f xs = replicate (length xs) c"
  by (induction xs) simp_all

lemma map_of_list_all:
  "list_all (\<lambda>p. P (snd p)) ps \<Longrightarrow> map_of ps k = Some v \<Longrightarrow> P v"
  by (induction ps) (auto split: if_splits)

text \<open>
  C4. For every sequence of filtered rows, every pair of selected columns, every
  string-to-number function and every prototype: there is one label and one value per
  row, in the order of the rows, nothing grouped or summed; label \<open>i\<close> is what the
  property read of row \<open>i\<close> at the x column gives (\<open>Undefined\<close> when there is nothing);
  value \<open>i\<close> is the number parsed from what the read of row \<open>i\<close> at the y column gives,
  and 0 when the cell is missing or parses to \<open>NaN\<close>. No step of the projection raises.
  With \<open>"10"\<close>, \<open>"x"\<close>, \<open>"20"\<close> parsed as the language parses them (10, \<open>NaN\<close>, 20), the
  y cells \<open>["10", "x", "20"]\<close> give the values \<open>[10, 0, 20]\<close>.
\<close>

theorem chartData_projection:
  "length (labels (chartData stn proto rows xCol yCol dark)) = length rows \<and>
   length (dataset_data (chartData stn proto rows xCol yCol dark)) = length rows \<and>
   (\<forall>i<length rows.
      labels (chartData stn proto rows xCol yCol dark) ! i = getProp proto (rows ! i) xCol \<and>
      dataset_data (chartData stn proto rows xCol yCol dark) ! i
        = numericCoerce stn (getProp proto (rows ! i) yCol)) \<and>
   (stn ''10'' = Num 10 \<and> stn ''x'' = NaN \<and> stn ''20'' = Num 20 \<longrightarrow>
      dataset_data
        (chartData stn proto [[yCol \<mapsto> ''10''], [yCol \<mapsto> ''x''], [yCol \<mapsto> ''20'']]
           xCol yCol dark)
        = [Num 10, Num 0, Num 20])"
  by (simp add: chartData_def or0_Number numericCoerce_def getProp_def)

theorem chartData_projection_witness:
  "dataset_data
     (chartData decimalToNumber standardPrototype
        [[''y'' \<mapsto> ''10''], [''y'' \<mapsto> ''x''], [''y'' \<mapsto> ''20'']] ''n'' ''y'' False)
     = [Num 10, Num 0, Num 20] \<and>
   (0::nat) < length [[''n'' \<mapsto> ''k'', ''y'' \<mapsto> ''7''], [''n'' \<mapsto> ''k'']] \<and>
   labels (chartData decimalToNumber standardPrototype
        [[''n'' \<mapsto> ''k'', ''y'' \<mapsto> ''7''], [''n'' \<mapsto> ''k'']] ''n'' ''y'' False) ! 0 = Str ''k'' \<and>
   dataset_data (chartData decimalToNumber standardPrototype
        [[''n'' \<mapsto> ''k'', ''y'' \<mapsto> ''7''], [''n'' \<mapsto> ''k'']] ''n'' ''y'' False) ! 0 = Num 7"
proof -
  have ex: "dataset_data
     (chartData decimalToNumber standardPrototype
        [[''y'' \<mapsto> ''10''], [''y'' \<mapsto> ''x''], [''y'' \<mapsto> ''20'']] ''n'' ''y'' False)
     = [Num 10, Num 0, Num 20]"
    using chartData_projection [of decimalToNumber standardPrototype "[]" "''n''" "''y''" False]
      decimalToNumber_examples by blast
  have l: "(0::nat) < length [[''n'' \<mapsto> ''k'', ''y'' \<mapsto> ''7''], [''n'' \<mapsto> ''k'']]"
    by simp
  have "decimalToNumber ''7'' = Num 7"
    by (simp add: decimalToNumber_def digitValue_def)
  then have n: "numericCoerce decimalToNumber
      (getProp standardPrototype
         ([[''n'' \<mapsto> ''k'', ''y'' \<mapsto> ''7''], [''n'' \<mapsto> ''k'']] ! 0) ''y'') = Num 7"
    by (simp add: numericCoerce_def getProp_def)
  have k: "getProp standardPrototype
      ([[''n'' \<mapsto> ''k'', ''y'' \<mapsto> ''7''], [''n'' \<mapsto> ''k'']] ! 0) ''n'' = Str ''k''"
    by (simp add: getProp_def)
  from chartData_projection [of decimalToNumber standardPrototype
      "[[''n'' \<mapsto> ''k'', ''y'' \<mapsto> ''7''], [''n'' \<mapsto> ''k'']]" "''n''" "''y''" False]
    l n k ex
  show ?thesis by metis
qed

text \<open>
  C6, as the code has it. When no filtered row owns the selected y column, every value
  is 0, given that no text of an inherited property reads as a number (none does: the
  texts are \<open>function ...() { [native code] }\<close> and \<open>[object Object]\<close>). When
  \<open>row[xColumn]\<close> is \<open>undefined\<close> in every filtered row, that is, no row owns the
  selected x column and its name is not a property inherited from \<open>Object.prototype\<close>,
  every label is \<open>undefined\<close>. Neither fails.
\<close>

theorem chartData_absent_column:
  "(list_all (\<lambda>row. row yCol = None) rows \<and> list_all (\<lambda>p. stn (snd p) = NaN) proto \<longrightarrow>
      dataset_data (chartData stn proto rows xCol yCol dark)
        = replicate (length rows) (Num 0)) \<and>
   (list_all (\<lambda>row. row xCol = None) rows \<and> map_of proto xCol = None \<longrightarrow>
      labels (chartData stn proto rows xCol yCol dark) = replicate (length rows) Undefined)"
proof -
  have v: "list_all (\<lambda>row. or0 (Number stn (getProp proto row yCol)) = Num 0) rows"
    if a: "list_all (\<lambda>row. row yCol = None) rows"
      and n: "list_all (\<lambda>p. stn (snd p) = NaN) proto"
  proof -
    have "or0 (Number stn (getProp proto row yCol)) = Num 0" if "row yCol = None" for row
    proof (cases "map_of proto yCol")
      case None
      with that show ?thesis by (simp add: getProp_def Number_def or0_def)
    next
      case (Some t)
      with n have "stn t = NaN" by (rule map_of_list_all)
      with that Some show ?thesis by (simp add: getProp_def Number_def or0_def)
    qed
    with a show ?thesis by (simp add: list_all_iff)
  qed
  have l: "list_all (\<lambda>row. getProp proto row xCol = Undefined) rows"
    if "list_all (\<lambda>row. row xCol = None) rows" and "map_of proto xCol = None"
    using that by (auto simp: list_all_iff getProp_def)
  from v l show ?thesis
    by (simp add: chartData_def map_absent)
qed

theorem chartData_absent_column_witness:
  "list_all (\<lambda>row. row ''constructor'' = None) [[''a'' \<mapsto> ''1'', ''b'' \<mapsto> ''2'']] \<and>
   list_all (\<lambda>row. row ''gone'' = None) [[''a'' \<mapsto> ''1'', ''b'' \<mapsto> ''2'']] \<and>
   map_of standardPrototype ''gone'' = None \<and>
   dataset_data
     (chartData decimalToNumber standardPrototype [[''a'' \<mapsto> ''1'', ''b'' \<mapsto> ''2'']]
        ''gone'' ''constructor'' False)
     = [Num 0] \<and>
   labels
     (chartData decimalToNumber standardPrototype [[''a'' \<mapsto> ''1'', ''b'' \<mapsto> ''2'']]
        ''gone'' ''constructor'' False)
     = [Undefined]"
proof -
  have a: "list_all (\<lambda>row. row ''constructor'' = None) [[''a'' \<mapsto> ''1'', ''b'' \<mapsto> ''2'']]"
    by simp
  have b: "list_all (\<lambda>row. row ''gone'' = None) [[''a'' \<mapsto> ''1'', ''b'' \<mapsto> ''2'']]"
    by simp
  have g: "map_of standardPrototype ''gone'' = None"
    by (simp add: standardPrototype_def)
  have r: "replicate (length [[''a'' \<mapsto> ''1'', ''b'' \<mapsto> ''2'']]) x = [x]" for x :: 'a
    by simp
  from chartData_absent_column [of "''constructor''" "[[''a'' \<mapsto> ''1'', ''b'' \<mapsto> ''2'']]"
      decimalToNumber standardPrototype "''gone''" False]
    a b g standardPrototype_not_numeric
  show ?thesis by (simp only: r simp_thms)
qed

text \<open>
  C6, as it is worded, fails on the labels: a column that no row has can still be read.
  The row \<open>{a: "1", b: "2"}\<close> has no column \<open>constructor\<close>; with that name as the
  selected x column the label is the inherited function, not \<open>undefined\<close>.
\<close>

theorem absent_column_label_counterexample:
  "[''a'' \<mapsto> ''1'', ''b'' \<mapsto> ''2''] ''constructor'' = None \<and>
   labels
     (chartData decimalToNumber standardPrototype [[''a'' \<mapsto> ''1'', ''b'' \<mapsto> ''2'']]
        ''constructor'' ''b'' False)
     = [Inherited ''constructor'' ''function Object() { [native code] }''] \<and>
   labels
     (chartData decimalToNumber standardPrototype [[''a'' \<mapsto> ''1'', ''b'' \<mapsto> ''2'']]
        ''constructor'' ''b'' False)
     \<noteq> [Undefined]"
  by (simp add: chartData_def getProp_def standardPrototype_def)

section \<open>Properties of parsing\<close>

text \<open>
  The pasted text and the uploaded file end in the same update of the state: when the
  parser returns, \<open>parseCSV\<close> does what the callback \<open>complete\<close> does.
\<close>

lemma complete_errors:
  "result_errors r = e # es \<Longrightarrow>
     complete r s = s\<lparr>error := ''CSV mal formateado: '' @ message e\<rparr>"
  by (simp add: complete_def)

lemma complete_success:
  "result_errors r = [] \<Longrightarrow>
     complete r s = s\<lparr>error := [], data := result_data r, columns := meta_fields r\<rparr>"
  by (simp add: complete_def)

lemma parseCSV_Returns: "papa (csvText s) = Returns r \<Longrightarrow> parseCSV papa s = complete r s"
  by (simp add: parseCSV_def complete_def)

lemma parseCSV_Throws:
  "papa (csvText s) = Throws m \<Longrightarrow> parseCSV papa s = s\<lparr>error := ''Error al parsear CSV: '' @ m\<rparr>"
  by (simp add: parseCSV_def)

lemma handleFileUpload_Some:
  "papaFile f = Some r \<Longrightarrow> handleFileUpload papaFile (Some f) s = complete r s"
  by (simp add: handleFileUpload_def)

text \<open>
  C2, as the code has it. When the parser, on the pasted text or on the uploaded file,
  returns a result with a non-empty error list, the error state becomes the fixed text
  \<open>"CSV mal formateado: "\<close> followed by the message of the first error, and nothing else
  of the state changes: the rows and the columns are those from before the attempt.
\<close>

theorem parse_errors_no_partial_update:
  assumes "result_errors r = e # es"
    and "(papa (csvText s) = Returns r \<and> s' = parseCSV papa s) \<or>
         (papaFile f = Some r \<and> s' = handleFileUpload papaFile (Some f) s)"
  shows "error s' = ''CSV mal formateado: '' @ message e \<and>
         data s' = data s \<and> columns s' = columns s \<and>
         s' = s\<lparr>error := ''CSV mal formateado: '' @ message e\<rparr>"
proof -
  from assms(2) have "s' = complete r s"
    by (auto simp: parseCSV_Returns handleFileUpload_Some)
  with assms(1) show ?thesis by (simp add: complete_errors)
qed

theorem parse_errors_no_partial_update_witness:
  "error (parseCSV (\<lambda>t. Returns \<lparr> result_data = [[''a'' \<mapsto> ''1'']],
      result_errors = [\<lparr> message = ''Too few fields'' \<rparr>,
        \<lparr> message = ''Quoted field unterminated'' \<rparr>],
      meta_fields = [''a'', ''b''] \<rparr>) initialState) = ''CSV mal formateado: Too few fields'' \<and>
   data (parseCSV (\<lambda>t. Returns \<lparr> result_data = [[''a'' \<mapsto> ''1'']],
      result_errors = [\<lparr> message = ''Too few fields'' \<rparr>,
        \<lparr> message = ''Quoted field unterminated'' \<rparr>],
      meta_fields = [''a'', ''b''] \<rparr>) initialState) = [] \<and>
   columns (handleFileUpload (\<lambda>f. Some \<lparr> result_data = [[''a'' \<mapsto> ''1'']],
      result_errors = [\<lparr> message = ''Too few fields'' \<rparr>,
        \<lparr> message = ''Quoted field unterminated'' \<rparr>],
      meta_fields = [''a'', ''b''] \<rparr>) (Some ()) initialState) = []"
proof -
  let ?r = "\<lparr> result_data = [[''a'' \<mapsto> ''1'']],
      result_errors = [\<lparr> message = ''Too few fields'' \<rparr>,
        \<lparr> message = ''Quoted field unterminated'' \<rparr>],
      meta_fields = [''a'', ''b''] \<rparr>"
  have e: "result_errors ?r
      = \<lparr> message = ''Too few fields'' \<rparr> # [\<lparr> message = ''Quoted field unterminated'' \<rparr>]"
    by simp
  have a: "(\<lambda>t. Returns ?r) (csvText initialState) = Returns ?r" by simp
  have b: "(\<lambda>f. Some ?r) () = Some ?r" by simp
  have i: "data initialState = [] \<and> columns initialState = []"
    by (simp add: initialState_def)
  from parse_errors_no_partial_update [OF e, of "\<lambda>t. Returns ?r" initialState
      "parseCSV (\<lambda>t. Returns ?r) initialState" "\<lambda>f. Some ?r" "()"] a
  have p: "error (parseCSV (\<lambda>t. Returns ?r) initialState)
      = ''CSV mal formateado: Too few fields'' \<and>
    data (parseCSV (\<lambda>t. Returns ?r) initialState) = data initialState"
    by simp
  from parse_errors_no_partial_update [OF e, of "\<lambda>t. Returns ?r" initialState
      "handleFileUpload (\<lambda>f. Some ?r) (Some ()) initialState" "\<lambda>f. Some ?r" "()"] b
  have u: "columns (handleFileUpload (\<lambda>f. Some ?r) (Some ()) initialState)
      = columns initialState"
    by simp
  from p u i show ?thesis by simp
qed

text \<open>
  C2, as it is worded, fails: the error state is not exactly the first error's message.
  With the one error \<open>Too few fields\<close> the error state is
  \<open>CSV mal formateado: Too few fields\<close>.
\<close>

theorem parse_error_message_counterexample:
  "error (parseCSV (\<lambda>t. Returns \<lparr> result_data = [],
      result_errors = [\<lparr> message = ''Too few fields'' \<rparr>],
      meta_fields = [''a'', ''b''] \<rparr>) initialState) \<noteq> ''Too few fields''"
  by (simp add: parseCSV_def initialState_def)

text \<open>
  C7. When the parser, on the pasted text or on the uploaded file, returns a result
  with no error, the error state is cleared, the rows and the columns become those of
  the result, and nothing else of the state changes: the selected x and y columns stay
  as they were, whether or not the new columns have them.
\<close>

theorem parse_success_replaces_table:
  assumes "result_errors r = []"
    and "(papa (csvText s) = Returns r \<and> s' = parseCSV papa s) \<or>
         (papaFile f = Some r \<and> s' = handleFileUpload papaFile (Some f) s)"
  shows "error s' = [] \<and> data s' = result_data r \<and> columns s' = meta_fields r \<and>
         xColumn s' = xColumn s \<and> yColumn s' = yColumn s \<and>
         s' = s\<lparr>error := [], data := result_data r, columns := meta_fields r\<rparr>"
proof -
  from assms(2) have "s' = complete r s"
    by (auto simp: parseCSV_Returns handleFileUpload_Some)
  with assms(1) show ?thesis by (simp add: complete_success)
qed

theorem parse_success_replaces_table_witness:
  "error (parseCSV (\<lambda>t. Returns \<lparr> result_data = [[''c'' \<mapsto> ''5'']], result_errors = [],
       meta_fields = [''c''] \<rparr>)
     (initialState\<lparr>columns := [''a'', ''b''], xColumn := ''a'', yColumn := ''b'',
        error := ''CSV mal formateado: Too few fields''\<rparr>)) = [] \<and>
   columns (parseCSV (\<lambda>t. Returns \<lparr> result_data = [[''c'' \<mapsto> ''5'']], result_errors = [],
       meta_fields = [''c''] \<rparr>)
     (initialState\<lparr>columns := [''a'', ''b''], xColumn := ''a'', yColumn := ''b'',
        error := ''CSV mal formateado: Too few fields''\<rparr>)) = [''c''] \<and>
   xColumn (parseCSV (\<lambda>t. Returns \<lparr> result_data = [[''c'' \<mapsto> ''5'']], result_errors = [],
       meta_fields = [''c''] \<rparr>)
     (initialState\<lparr>columns := [''a'', ''b''], xColumn := ''a'', yColumn := ''b'',
        error := ''CSV mal formateado: Too few fields''\<rparr>)) = ''a'' \<and>
   yColumn (handleFileUpload (\<lambda>f. Some \<lparr> result_data = [[''c'' \<mapsto> ''5'']],
       result_errors = [], meta_fields = [''c''] \<rparr>) (Some ())
     (initialState\<lparr>columns := [''a'', ''b''], xColumn := ''a'', yColumn := ''b'',
        error := ''CSV mal formateado: Too few fields''\<rparr>)) = ''b''"
proof -
  let ?r = "\<lparr> result_data = [[''c'' \<mapsto> ''5'']], result_errors = [], meta_fields = [''c''] \<rparr>"
  let ?s = "initialState\<lparr>columns := [''a'', ''b''], xColumn := ''a'', yColumn := ''b'',
        error := ''CSV mal formateado: Too few fields''\<rparr>"
  have e: "result_errors ?r = []" by simp
  have a: "(\<lambda>t. Returns ?r) (csvText ?s) = Returns ?r" by simp
  have b: "(\<lambda>f. Some ?r) () = Some ?r" by simp
  from parse_success_replaces_table [OF e, of "\<lambda>t. Returns ?r" ?s
      "parseCSV (\<lambda>t. Returns ?r) ?s" "\<lambda>f. Some ?r" "()"] a
  have p: "error (parseCSV (\<lambda>t. Returns ?r) ?s) = [] \<and>
     columns (parseCSV (\<lambda>t. Returns ?r) ?s) = [''c''] \<and>
     xColumn (parseCSV (\<lambda>t. Returns ?r) ?s) = ''a''"
    by simp
  from parse_success_replaces_table [OF e, of "\<lambda>t. Returns ?r" ?s
      "handleFileUpload (\<lambda>f. Some ?r) (Some ()) ?s" "\<lambda>f. Some ?r" "()"] b
  have u: "yColumn (handleFileUpload (\<lambda>f. Some ?r) (Some ()) ?s) = ''b''"
    by simp
  from p u show ?thesis by simp
qed

section \<open>Properties of the export\<close>

text \<open>An exception of the snapshot is caught and becomes the error state.\<close>

lemma export_snapshot_exception_caught:
  "toBase64Image chart = Throws m \<Longrightarrow>
     exportChartPNG b (Some chart) s
       = \<lparr> state = s\<lparr>error := ''Error exportando: '' @ m\<rparr>, downloads = [],
           uncaught = None \<rparr>"
  by (simp add: exportChartPNG_def)

text \<open>
  A download is triggered only when the snapshot, the loading of the image, the
  composite and the encoding have all succeeded; it is the one file \<open>chart.png\<close> with
  the encoded URL.
\<close>

lemma export_download_after_encode:
  assumes "downloads (exportChartPNG b chartRef s) \<noteq> []"
  shows "\<exists>chart url canvas finalUrl.
           chartRef = Some chart \<and> toBase64Image chart = Returns url \<and> image_loads b url \<and>
           composite b url = Returns canvas \<and> toDataURL b canvas = Returns finalUrl \<and>
           exportChartPNG b chartRef s
             = \<lparr> state = s, downloads = [(''chart.png'', finalUrl)], uncaught = None \<rparr>"
  using assms
  by (auto simp: exportChartPNG_def onload_def split: option.splits outcome.splits if_splits)

text \<open>
  C3. The code at an export whose callback throws. The snapshot succeeds and the image
  loads; then either the composite throws (\<open>getContext\<close> gave \<open>null\<close>) or the encoding
  throws. In both cases nothing is downloaded, the exception is caught by no handler,
  and the error state is not set: it is still the empty string.
\<close>

theorem export_callback_exception_uncaught:
  "exportChartPNG
     \<lparr> image_loads = (\<lambda>url. True),
       composite = (\<lambda>url. Throws ''ctx is null''),
       toDataURL = (\<lambda>canvas :: string. Returns canvas) \<rparr>
     (Some \<lparr> toBase64Image = Returns ''data:image/png;base64,AAAA'' \<rparr>) initialState
   = \<lparr> state = initialState, downloads = [], uncaught = Some ''ctx is null'' \<rparr> \<and>
   exportChartPNG
     \<lparr> image_loads = (\<lambda>url. True),
       composite = (\<lambda>url. Returns url),
       toDataURL = (\<lambda>canvas :: string. Throws ''The operation is insecure.'') \<rparr>
     (Some \<lparr> toBase64Image = Returns ''data:image/png;base64,AAAA'' \<rparr>) initialState
   = \<lparr> state = initialState, downloads = [],
       uncaught = Some ''The operation is insecure.'' \<rparr> \<and>
   error initialState = []"
  by (simp add: exportChartPNG_def onload_def initialState_def)

text \<open>
  C5. The code at a successful export from a state that shows an error. Every step
  succeeds and \<open>chart.png\<close> is downloaded; the state is the one from before, and the
  error message is still shown.
\<close>

theorem export_success_keeps_error:
  "exportChartPNG
     \<lparr> image_loads = (\<lambda>url. True),
       composite = (\<lambda>url. Returns url),
       toDataURL = (\<lambda>canvas :: string. Returns canvas) \<rparr>
     (Some \<lparr> toBase64Image = Returns ''data:image/png;base64,AAAA'' \<rparr>)
     (initialState\<lparr>error := ''Error exportando: boom''\<rparr>)
   = \<lparr> state = initialState\<lparr>error := ''Error exportando: boom''\<rparr>,
       downloads = [(''chart.png'', ''data:image/png;base64,AAAA'')], uncaught = None \<rparr>"
  by (simp add: exportChartPNG_def onload_def)

text \<open>
  C10. With no chart rendered (\<open>chartRef.current\<close> is \<open>null\<close>) the export returns at
  once: no download, no exception, and the state, the error state with it, is the one
  from before.
\<close>

theorem export_without_chart_noop:
  "exportChartPNG b None s = \<lparr> state = s, downloads = [], uncaught = None \<rparr>"
  by (simp add: exportChartPNG_def)

end
